theory Spec2Isabelle
  imports Complex_Main
begin

section \<open>Numeric model\<close>

text \<open>
  The geometry utilities of GaBOflow compute on numpy arrays of floating-point numbers.
  Here a number is a \<^typ>\<open>real\<close>: \<open>np.sin\<close>, \<open>np.cos\<close>, \<open>np.exp\<close> and \<open>np.sqrt\<close>
  are the real functions \<^const>\<open>sin\<close>, \<^const>\<open>cos\<close>, \<^const>\<open>exp\<close> and \<^const>\<open>sqrt\<close>,
  and \<open>np.pi\<close> is \<^const>\<open>pi\<close>. Rounding, overflow and NaN are outside this model; every
  statement below is about the formulas the code evaluates, in exact arithmetic.

  A one-dimensional array is a list of reals, a two-dimensional array a list of rows.
\<close>

type_synonym vec = "real list"
type_synonym mat = "real list list"

subsection \<open>The numpy operations the code uses\<close>

text \<open>\<open>np.eye(n)\<close>.\<close>

definition eye :: "nat \<Rightarrow> mat" where
  "eye n = map (\<lambda>i. map (\<lambda>j. if i = j then 1 else 0) [0..<n]) [0..<n]"

text \<open>\<open>c * A\<close> for a scalar \<open>c\<close> and an array \<open>A\<close>.\<close>

definition smult :: "real \<Rightarrow> mat \<Rightarrow> mat" where
  "smult c A = map (map (\<lambda>x. c * x)) A"

text \<open>\<open>A + B\<close> for two arrays of the same shape.\<close>

definition mat_add :: "mat \<Rightarrow> mat \<Rightarrow> mat" where
  "mat_add A B = map2 (map2 (+)) A B"

text \<open>Inner product of two one-dimensional arrays of the same length.\<close>

definition dot_vv :: "vec \<Rightarrow> vec \<Rightarrow> real" where
  "dot_vv u v = sum_list (map2 (*) u v)"

text \<open>Column \<open>j\<close> of a two-dimensional array, \<open>B[:, j]\<close>.\<close>

definition col :: "mat \<Rightarrow> nat \<Rightarrow> vec" where
  "col B j = map (\<lambda>row. row ! j) B"

definition ncols :: "mat \<Rightarrow> nat" where
  "ncols B = (case B of [] \<Rightarrow> 0 | row # _ \<Rightarrow> length row)"

text \<open>\<open>A.dot(B)\<close> for two-dimensional arrays: entry \<open>(i, j)\<close> is the inner product of row
  \<open>i\<close> of \<open>A\<close> with column \<open>j\<close> of \<open>B\<close>.\<close>

definition mat_dot :: "mat \<Rightarrow> mat \<Rightarrow> mat" where
  "mat_dot A B = map (\<lambda>row. map (\<lambda>j. dot_vv row (col B j)) [0..<ncols B]) A"

text \<open>\<open>A.dot(v)\<close> for a two-dimensional \<open>A\<close> and a one-dimensional \<open>v\<close>.\<close>

definition dot_mv :: "mat \<Rightarrow> vec \<Rightarrow> vec" where
  "dot_mv A v = map (\<lambda>row. dot_vv row v) A"

text \<open>\<open>A.T\<close>.\<close>

definition mat_transpose :: "mat \<Rightarrow> mat" where
  "mat_transpose A = map (col A) [0..<ncols A]"

text \<open>\<open>np.cross(a, b)\<close> on arrays of three entries.\<close>

definition cross :: "vec \<Rightarrow> vec \<Rightarrow> vec" where
  "cross a b = [a ! 1 * b ! 2 - a ! 2 * b ! 1,
                a ! 2 * b ! 0 - a ! 0 * b ! 2,
                a ! 0 * b ! 1 - a ! 1 * b ! 0]"

text \<open>\<open>np.linalg.norm(v)\<close>, the Euclidean norm.\<close>

definition norm_v :: "vec \<Rightarrow> real" where
  "norm_v v = sqrt (sum_list (map (\<lambda>x. x * x) v))"

section \<open>Riemannian\_utils/geometry\_utils.py\<close>

text \<open>
  \<open>vector_to_skew_matrix(q)\<close> reads \<open>q[0]\<close>, \<open>q[1]\<close> and \<open>q[2]\<close>. On an array of fewer than
  three entries the indexing raises \<open>IndexError\<close>, which is \<^const>\<open>None\<close> here; entries past
  the third are ignored, as in the code.
\<close>

definition vector_to_skew_matrix :: "vec \<Rightarrow> mat option" where
  "vector_to_skew_matrix q =
     (if length q < 3 then None
      else Some [[0, - (q ! 2), q ! 1],
                 [q ! 2, 0, - (q ! 0)],
                 [- (q ! 1), q ! 0, 0]])"

text \<open>
  \<open>rotation_matrix_from_axis_angle(ax, angle)\<close>: the skew matrix of the axis, then
  \<open>np.eye(3) + np.sin(angle)*utilde + (1 - np.cos(angle))*utilde.dot(utilde)\<close>.
\<close>

definition rotation_matrix_from_axis_angle :: "vec \<Rightarrow> real \<Rightarrow> mat option" where
  "rotation_matrix_from_axis_angle ax angle =
     (case vector_to_skew_matrix ax of
        None \<Rightarrow> None
      | Some utilde \<Rightarrow>
          Some (mat_add (mat_add (eye 3) (smult (sin angle) utilde))
                        (smult (1 - cos angle) (mat_dot utilde utilde))))"

text \<open>
  The returned matrix written out entry by entry for the axis \<open>(a, b, c)\<close>, with \<open>s\<close> for
  \<open>sin(angle)\<close> and \<open>k\<close> for \<open>1 - cos(angle)\<close>. It is what the three numpy operations of
  the return statement produce (lemma \<open>rotation_matrix_entries\<close> below).
\<close>

definition rot3 :: "real \<Rightarrow> real \<Rightarrow> real \<Rightarrow> real \<Rightarrow> real \<Rightarrow> mat" where
  "rot3 a b c s k =
     [[1 + k * (- (c * c) - b * b), - (s * c) + k * (a * b), s * b + k * (a * c)],
      [s * c + k * (a * b), 1 + k * (- (c * c) - a * a), - (s * a) + k * (b * c)],
      [- (s * b) + k * (a * c), s * a + k * (b * c), 1 + k * (- (b * b) - a * a)]]"

subsection \<open>Rodrigues' formula as the specification words it\<close>

text \<open>
  \<open>R = I + sin(\<theta>)\<cdot>K + (1 - cos(\<theta>))\<cdot>K\<^sup>2\<close>, read entry by entry with the textbook
  meaning of the identity matrix and of the matrix product: entry \<open>(i, j)\<close> of \<open>K\<^sup>2\<close> is
  the sum over \<open>l\<close> of \<open>K[i][l] * K[l][j]\<close>.
\<close>

definition rodrigues_entry :: "mat \<Rightarrow> real \<Rightarrow> nat \<Rightarrow> nat \<Rightarrow> real" where
  "rodrigues_entry K \<theta> i j =
     (if i = j then 1 else 0) + sin \<theta> * (K ! i ! j)
       + (1 - cos \<theta>) * (\<Sum>l\<leftarrow>[0..<3]. K ! i ! l * K ! l ! j)"

definition rodrigues :: "mat \<Rightarrow> real \<Rightarrow> mat" where
  "rodrigues K \<theta> = map (\<lambda>i. map (\<lambda>j. rodrigues_entry K \<theta> i j) [0..<3]) [0..<3]"

text \<open>The negation \<open>-A\<close> of an array, and the axis divided by its norm.\<close>

definition mat_neg :: "mat \<Rightarrow> mat" where
  "mat_neg A = map (map uminus) A"

definition normalized :: "vec \<Rightarrow> vec" where
  "normalized v = map (\<lambda>x. x / norm_v v) v"

section \<open>examples/bo\_spd/benchmark\_examples/bo\_spd\_ackley\_manifold.py\<close>



text \<open>
  The positions \<open>(i, j)\<close> with \<open>i \<le> j < n\<close> of an \<open>n \<times> n\<close> matrix, column by column. A
  symmetric matrix is given by its entries at these positions, which can be chosen freely
  (lemmas \<open>symmetric_determined\<close> and \<open>symmetric_free\<close> below), so their number is the
  dimension of the space of symmetric \<open>n \<times> n\<close> matrices.
\<close>

primrec sym_positions :: "nat \<Rightarrow> (nat \<times> nat) list" where
  "sym_positions 0 = []"
| "sym_positions (Suc n) = sym_positions n @ map (\<lambda>i. (i, n)) [0..<Suc n]"

definition symmetric_upto :: "nat \<Rightarrow> (nat \<Rightarrow> nat \<Rightarrow> real) \<Rightarrow> bool" where
  "symmetric_upto n M \<longleftrightarrow> (\<forall>i<n. \<forall>j<n. M i j = M j i)"








section \<open>Properties of the geometry utilities\<close>

subsection \<open>Auxiliary facts\<close>

lemmas array_defs = eye_def smult_def mat_add_def dot_vv_def col_def ncols_def mat_dot_def
  dot_mv_def mat_transpose_def

lemma upt_3: "[0..<3] = [0, Suc 0, Suc (Suc 0)]"
  by (simp add: upt_rec numeral_3_eq_3)

lemma three_entries:
  assumes "length (q :: 'a list) = 3"
  obtains a b c where "q = [a, b, c]"
proof -
  from assms obtain a q1 where q: "q = a # q1" and l1: "length q1 = 2"
    by (cases q) auto
  from l1 obtain b q2 where q1: "q1 = b # q2" and l2: "length q2 = 1"
    by (cases q1) auto
  from l2 obtain c where "q2 = [c]"
    by (cases q2) auto
  with q q1 have "q = [a, b, c]" by simp
  then show thesis by (rule that)
qed

lemma skew_entries:
  "vector_to_skew_matrix [a, b, c] = Some [[0, - c, b], [c, 0, - a], [- b, a, 0]]"
  by (simp add: vector_to_skew_matrix_def numeral_2_eq_2)

lemma rotation_matrix_entries:
  "rotation_matrix_from_axis_angle [a, b, c] t = Some (rot3 a b c (sin t) (1 - cos t))"
  by (simp add: rotation_matrix_from_axis_angle_def skew_entries array_defs upt_3 rot3_def
      algebra_simps)







subsection \<open>Rodrigues' formula\<close>

text \<open>
  Claim C1. For every array \<open>ax\<close> of three entries and every angle \<open>\<theta>\<close>,
  \<open>rotation_matrix_from_axis_angle(ax, \<theta>)\<close> returns the matrix
  \<open>I + sin(\<theta>)\<cdot>K + (1 - cos(\<theta>))\<cdot>K\<^sup>2\<close> with \<open>K = vector_to_skew_matrix(ax)\<close> and \<open>I\<close> the
  \<open>3 \<times> 3\<close> identity matrix: the three rows of three entries of the result are the
  entries of that matrix.
\<close>

theorem rotation_matrix_is_rodrigues:
  assumes "length ax = 3"
  shows "\<exists>K. vector_to_skew_matrix ax = Some K
           \<and> rotation_matrix_from_axis_angle ax \<theta> = Some (rodrigues K \<theta>)"
proof -
  from assms obtain a b c where ax: "ax = [a, b, c]"
    by (rule three_entries)
  have "rot3 a b c (sin \<theta>) (1 - cos \<theta>) = rodrigues [[0, - c, b], [c, 0, - a], [- b, a, 0]] \<theta>"
    by (simp add: rot3_def rodrigues_def rodrigues_entry_def upt_3 algebra_simps)
  then show ?thesis
    by (simp add: ax skew_entries rotation_matrix_entries)
qed

theorem rotation_matrix_is_rodrigues_witness:
  "length [0, 0, 1 :: real] = 3
   \<and> vector_to_skew_matrix [0, 0, 1] = Some [[0, - 1, 0], [1, 0, 0], [0, 0, 0]]
   \<and> rotation_matrix_from_axis_angle [0, 0, 1] (pi / 2)
       = Some (rodrigues [[0, - 1, 0], [1, 0, 0], [0, 0, 0]] (pi / 2))"
  using rotation_matrix_is_rodrigues [of "[0, 0, 1]" "pi / 2"]
  by (simp add: skew_entries)





text \<open>
  Claim C4. For all arrays \<open>q\<close> and \<open>v\<close> of three entries, the matrix
  \<open>vector_to_skew_matrix(q)\<close> applied to \<open>v\<close> is the cross product \<open>q \<times> v\<close>, and the
  matrix is skew-symmetric: its transpose is its negation.
\<close>

theorem skew_matrix_is_cross_product:
  assumes "length q = 3" and "length v = 3"
  shows "\<exists>K. vector_to_skew_matrix q = Some K
           \<and> dot_mv K v = cross q v
           \<and> mat_transpose K = mat_neg K"
proof -
  from assms(1) obtain a b c where q: "q = [a, b, c]"
    by (rule three_entries)
  from assms(2) obtain x y z where v: "v = [x, y, z]"
    by (rule three_entries)
  let ?K = "[[0, - c, b], [c, 0, - a], [- b, a, 0]]"
  have "dot_mv ?K [x, y, z] = cross [a, b, c] [x, y, z]"
    by (simp add: dot_mv_def dot_vv_def cross_def numeral_2_eq_2)
  moreover have "mat_transpose ?K = mat_neg ?K"
    by (simp add: mat_transpose_def col_def ncols_def mat_neg_def upt_3)
  ultimately show ?thesis
    by (simp add: q v skew_entries)
qed

theorem skew_matrix_is_cross_product_witness:
  "length [1, 2, 3 :: real] = 3 \<and> length [4, 5, 6 :: real] = 3
   \<and> (\<exists>K. vector_to_skew_matrix [1, 2, 3] = Some K
          \<and> dot_mv K [4, 5, 6] = [- 3, 6, - 3]
          \<and> mat_transpose K = mat_neg K)"
  using skew_matrix_is_cross_product [of "[1, 2, 3]" "[4, 5, 6]"]
  by (simp add: cross_def numeral_2_eq_2)

text \<open>
  Claim C5. \<open>rotation_matrix_from_axis_angle\<close> uses the axis as it is given and does not
  renormalize it: there are an array \<open>ax\<close> of three entries whose norm is not \<open>1\<close> and an
  angle \<open>\<theta>\<close> for which the matrix returned for \<open>ax\<close> differs from the matrix returned for
  \<open>ax / \<parallel>ax\<parallel>\<close> (both calls return a matrix).
\<close>

theorem axis_not_renormalized:
  "\<exists>ax \<theta>. length ax = 3 \<and> norm_v ax \<noteq> 1
     \<and> rotation_matrix_from_axis_angle ax \<theta> \<noteq> None
     \<and> rotation_matrix_from_axis_angle (normalized ax) \<theta> \<noteq> None
     \<and> rotation_matrix_from_axis_angle ax \<theta>
         \<noteq> rotation_matrix_from_axis_angle (normalized ax) \<theta>"
proof -
  have n: "norm_v [2, 0, 0] = 2"
    using real_sqrt_abs2 [of 2] by (simp add: norm_v_def)
  have u: "normalized [2, 0, 0] = [1, 0, 0]"
    by (simp add: normalized_def n)
  have "length [2, 0, 0 :: real] = 3 \<and> norm_v [2, 0, 0] \<noteq> 1
     \<and> rotation_matrix_from_axis_angle [2, 0, 0] pi \<noteq> None
     \<and> rotation_matrix_from_axis_angle (normalized [2, 0, 0]) pi \<noteq> None
     \<and> rotation_matrix_from_axis_angle [2, 0, 0] pi
         \<noteq> rotation_matrix_from_axis_angle (normalized [2, 0, 0]) pi"
    by (simp add: n u rotation_matrix_entries rot3_def)
  then show ?thesis by blast
qed

subsection \<open>The returned matrix as a rotation about the axis\<close>





section \<open>Properties of the example script\<close>

subsection \<open>Positions of a symmetric matrix\<close>


lemma set_sym_positions: "set (sym_positions n) = {(i, j). i \<le> j \<and> j < n}"
proof (induction n)
  case 0
  show ?case by simp
next
  case (Suc n)
  have "set (map (\<lambda>i. (i, n)) [0..<Suc n]) = {(i, j). i \<le> j \<and> j = n}"
    by auto
  with Suc show ?case by auto
qed

lemma distinct_sym_positions: "distinct (sym_positions n)"
proof (induction n)
  case 0
  show ?case by simp
next
  case (Suc n)
  have "distinct (map (\<lambda>i. (i, n)) [0..<Suc n])"
    by (simp add: distinct_map inj_on_def del: upt_Suc)
  moreover have "set (sym_positions n) \<inter> set (map (\<lambda>i. (i, n)) [0..<Suc n]) = {}"
    by (auto simp: set_sym_positions)
  ultimately show ?case using Suc by (simp del: upt_Suc)
qed

text \<open>Two symmetric matrices that agree at these positions agree everywhere.\<close>

lemma symmetric_determined:
  assumes "symmetric_upto n M" and "symmetric_upto n N"
    and agree: "\<And>i j. (i, j) \<in> set (sym_positions n) \<Longrightarrow> M i j = N i j"
    and "i < n" and "j < n"
  shows "M i j = N i j"
proof (cases "i \<le> j")
  case True
  with \<open>j < n\<close> have "(i, j) \<in> set (sym_positions n)"
    by (simp add: set_sym_positions)
  then show ?thesis by (rule agree)
next
  case False
  with \<open>i < n\<close> have "(j, i) \<in> set (sym_positions n)"
    by (simp add: set_sym_positions)
  then have "M j i = N j i" by (rule agree)
  moreover have "M i j = M j i" "N i j = N j i"
    using assms(1,2) \<open>i < n\<close> \<open>j < n\<close> by (simp_all add: symmetric_upto_def)
  ultimately show ?thesis by simp
qed

text \<open>Every choice of values at these positions is taken by a symmetric matrix.\<close>

lemma symmetric_free:
  "\<exists>M. symmetric_upto n M \<and> (\<forall>(i, j) \<in> set (sym_positions n). M i j = f (i, j))"
proof -
  let ?M = "\<lambda>i j. f (min i j, max i j)"
  have "symmetric_upto n ?M"
    by (simp add: symmetric_upto_def min.commute max.commute)
  moreover have "\<forall>(i, j) \<in> set (sym_positions n). ?M i j = f (i, j)"
    by (auto simp: set_sym_positions min_def max_def)
  ultimately show ?thesis by blast
qed

subsection \<open>The dimension of the Mandel vector\<close>






subsection \<open>The test function at the base matrix\<close>




end
